theory Spec2Isabelle
  imports Main "HOL-Library.AList"
begin

section \<open>JavaScript values\<close>

text \<open>
  The connect compiler takes its input as \<^verbatim>\<open>value: any\<close>: the JSON-like object the GraphQL
  layer hands over. \<open>jsv\<close> is that value. An object keeps its entries in insertion order
  (\<^verbatim>\<open>Object.entries\<close> walks them in that order), so it is an association list; its keys
  are distinct.
\<close>

datatype jsv = JUndefined | JNull | JBool bool | JNum int | JStr string
  | JArr "jsv list" | JObj "(string \<times> jsv) list"

text \<open>What \<^verbatim>\<open>if (x)\<close> and \<^verbatim>\<open>!x\<close> test.\<close>

fun truthy :: "jsv \<Rightarrow> bool" where
  "truthy JUndefined = False"
| "truthy JNull = False"
| "truthy (JBool b) = b"
| "truthy (JNum n) = (n \<noteq> 0)"
| "truthy (JStr s) = (s \<noteq> [])"
| "truthy (JArr xs) = True"
| "truthy (JObj kvs) = True"

text \<open>
  \<^verbatim>\<open>x?.[k]\<close>, the property read that gives \<^verbatim>\<open>undefined\<close> where there is nothing to
  read. The model reads own properties of objects only. That is the code for an input
  object without a prototype and, for an object with one, for every key that is not a
  member of \<^verbatim>\<open>Object.prototype\<close>: on a plain object \<^verbatim>\<open>x?.["toString"]\<close> or
  \<^verbatim>\<open>x?.["constructor"]\<close> finds the inherited function where \<open>getp\<close> finds nothing. An array or a
  string in the place of an input object is outside the GraphQL input types.
\<close>

fun getp :: "jsv \<Rightarrow> string \<Rightarrow> jsv" where
  "getp (JObj kvs) k = (case map_of kvs k of Some v \<Rightarrow> v | None \<Rightarrow> JUndefined)"
| "getp v k = JUndefined"

text \<open>\<^verbatim>\<open>Object.prototype.hasOwnProperty.call(x, k)\<close>.\<close>

fun hasOwn :: "jsv \<Rightarrow> string \<Rightarrow> bool" where
  "hasOwn (JObj kvs) k = (map_of kvs k \<noteq> None)"
| "hasOwn v k = False"

fun entries :: "jsv \<Rightarrow> (string \<times> jsv) list" where
  "entries (JObj kvs) = kvs"
| "entries v = []"

text \<open>
  The exceptions the compiler itself can raise: a \<^verbatim>\<open>TypeError\<close> (a property read on
  \<^verbatim>\<open>undefined\<close> or \<^verbatim>\<open>null\<close>, a call of a method that is not there) and a \<^verbatim>\<open>ReferenceError\<close>
  (the evaluation of an identifier that no scope declares).
\<close>

datatype error = TypeError | ReferenceError

text \<open>
  A \<^verbatim>\<open>forEach\<close> or \<^verbatim>\<open>reduce\<close> whose body may throw: the state is threaded through the
  elements in order, and the first exception ends the loop.
\<close>

fun foldE :: "('a \<Rightarrow> 's \<Rightarrow> error + 's) \<Rightarrow> 'a list \<Rightarrow> 's \<Rightarrow> error + 's" where
  "foldE f [] s = Inr s"
| "foldE f (x # xs) s = (case f x s of Inl e \<Rightarrow> Inl e | Inr s' \<Rightarrow> foldE f xs s')"

text \<open>\<^verbatim>\<open>a.join(sep)\<close> of a string array.\<close>

fun join :: "string \<Rightarrow> string list \<Rightarrow> string" where
  "join sep [] = []"
| "join sep [x] = x"
| "join sep (x # y # ys) = x @ sep @ join sep (y # ys)"

text \<open>A loop index inside a template string: its decimal digits.\<close>

fun string_of_nat :: "nat \<Rightarrow> string" where
  "string_of_nat n =
     (if n < 10 then [char_of (48 + n)]
      else string_of_nat (n div 10) @ [char_of (48 + n mod 10)])"

declare string_of_nat.simps [simp del]

text \<open>
  The parameter object of a compiled program. \<^verbatim>\<open>{ ...a, ...b }\<close> is \<open>a ++ b\<close>: on a key of
  both, \<open>b\<close> wins.
\<close>

type_synonym params = "string \<rightharpoonup> jsv"

text \<open>
  The accumulator \<^verbatim>\<open>Res = { connects: string[], params }\<close> of the reducers, and likewise the
  pair of the line buffer \<^verbatim>\<open>subquery\<close> and \<^verbatim>\<open>params\<close> inside \<^verbatim>\<open>createSubqueryContents\<close>.
\<close>

type_synonym res = "string list \<times> params"

section \<open>The schema model and the collaborators of the connect compiler\<close>

text \<open>
  The fields of a relationship field, of a node and of the translation context that
  \<^verbatim>\<open>createConnectAndParams\<close> mentions. \<open>union_field\<close> is the truth value of
  \<^verbatim>\<open>relationField.union\<close>; \<open>interface\<close> is \<^verbatim>\<open>relationField.interface\<close> with its
  \<^verbatim>\<open>implementations\<close>; \<open>auth\<close> is whether the node carries an \<^verbatim>\<open>auth\<close> object at all.
  (\<^verbatim>\<open>fieldName\<close>, \<^verbatim>\<open>union\<close>, \<^verbatim>\<open>typeMeta.name\<close>, \<^verbatim>\<open>relationFields\<close> and \<^verbatim>\<open>context.nodes\<close> are
  mentioned in the loop over the nested connects only.)
\<close>

record relationField =
  fieldName :: string
  type :: string
  direction :: string
  properties :: "string option"
  union_field :: bool
  interface :: "string list option"
  typeMeta_name :: string
  typeMeta_array :: bool

record node =
  name :: string
  auth :: bool
  relationFields :: "relationField list"

record ctx =
  subscriptionsEnabled :: bool
  nodes :: "node list"
  relationships :: "string list"

text \<open>
  The argument object of \<^verbatim>\<open>createAuthAndParams\<close> and \<^verbatim>\<open>createAuthPredicates\<close>. Exactly one of
  \<^verbatim>\<open>where\<close>, \<^verbatim>\<open>allow\<close> and \<^verbatim>\<open>bind\<close> is passed by the connect compiler: \<open>WhereRule varName
  node\<close>, \<open>AllowRule parentNode varName chainStr\<close>, \<open>BindRule parentNode varName chainStr\<close>.
\<close>

datatype authRule = WhereRule string node | AllowRule node string string | BindRule node string string

record authArgs =
  entity :: node
  operations :: string
  authContext :: ctx
  escapeQuotes :: bool
  skipIsAuthenticated :: bool
  skipRoles :: bool
  rule :: authRule

text \<open>
  Predicates of the Cypher builder: what a collaborator returns is opaque to the connect
  compiler, which only combines predicates with \<^verbatim>\<open>Cypher.and\<close> and wraps them in
  \<^verbatim>\<open>Cypher.apoc.ValidatePredicate\<close>.
\<close>

datatype predicate = Opaque string | And "predicate list" | ValidatePredicate predicate string

text \<open>
  The functions and constants that the file imports from other modules of the package and
  that its reachable statements call. They are taken as given, and as functions that
  return. \<open>patternName\<close> is what the builder answers for
  \<^verbatim>\<open>relationshipPattern.pattern.name\<close>.
\<close>

record deps =
  createWherePredicate :: "string \<Rightarrow> (string \<times> jsv) list \<Rightarrow> ctx \<Rightarrow> node \<Rightarrow> predicate option"
  createAuthPredicates :: "authArgs \<Rightarrow> predicate option"
  createAuthAndParams :: "authArgs \<Rightarrow> string \<times> params"
  createSetRelationshipPropertiesAndParams :: "jsv \<Rightarrow> string \<Rightarrow> string option \<Rightarrow> string \<times> params"
  createConnectionEventMetaObject :: "string list \<Rightarrow> string"
  filterMetaVariable :: "string list \<Rightarrow> string list"
  AUTH_FORBIDDEN_ERROR :: string
  patternName :: string

text \<open>
  The argument object of \<^verbatim>\<open>createConnectAndParams\<close> (\<^verbatim>\<open>value\<close> and \<^verbatim>\<open>context\<close> are
  \<open>value_in\<close> and \<open>connectContext\<close>; \<^verbatim>\<open>callbackBucket\<close> is only handed on to
  \<^verbatim>\<open>createSetRelationshipPropertiesAndParams\<close>). An element of \<^verbatim>\<open>refNodes\<close> is \<open>None\<close> where
  \<^verbatim>\<open>context.nodes.find\<close> found no node.
\<close>

record connectArgs =
  withVars :: "string list"
  value_in :: jsv
  varName :: string
  relationField :: relationField
  parentVar :: string
  connectContext :: ctx
  refNodes :: "node option list"
  labelOverride :: string
  parentNode :: node
  fromCreate :: bool
  insideDoWhen :: bool
  includeRelationshipValidation :: bool
  isFirstLevel :: bool

section \<open>The clause objects that createSubqueryContents builds\<close>

text \<open>
  The first half of \<^verbatim>\<open>createSubqueryContents\<close> builds objects of the Cypher builder. They
  are free syntax here: a constructor per builder class, and a \<^verbatim>\<open>RawCypher\<close> callback as the
  pieces of its template string (\<open>Ref x\<close> is \<^verbatim>\<open>x.getCypher(env)\<close>). \<open>Variable\<close> is the
  anonymous \<^verbatim>\<open>new Cypher.Variable()\<close>. A column is one argument of \<^verbatim>\<open>With\<close>, \<^verbatim>\<open>Unwind\<close> or
  \<^verbatim>\<open>return\<close>: a variable, or a pair \<^verbatim>\<open>[expression, alias]\<close>.
\<close>

datatype expr = NamedNode string | NamedVariable string | Variable | RawExpr "piece list"
  | CypherCollect expr | CypherCount expr
and piece = Text string | Ref expr

datatype column = Column expr | Aliased expr expr

text \<open>
  \<open>With cols chained\<close> and \<open>Unwind cols chained\<close> carry the arguments of the \<^verbatim>\<open>.with(...)\<close>
  calls made on them; \<open>Call c cols\<close> is \<^verbatim>\<open>new Cypher.Call(c).return(cols)\<close>; an argument of
  \<^verbatim>\<open>Cypher.concat\<close> may be \<^verbatim>\<open>undefined\<close>.
\<close>

datatype clause =
    With "column list" "column list list"
  | Unwind "column list" "column list list"
  | Merge expr expr string
  | RawCypher "piece list"
  | Call clause "column list"
  | Concat "clause option list"

record matchClause =
  matchPattern :: expr
  matchWith :: "column list list"
  matchWhere :: "predicate list"

definition metaColumns :: "deps \<Rightarrow> connectArgs \<Rightarrow> column list" where
  "metaColumns D A =
     map (\<lambda>withVar. Column (NamedVariable withVar)) (filterMetaVariable D (withVars A))
       @ [Aliased (RawExpr [Text ''[]'']) (NamedVariable ''meta'')]"

text \<open>
  The where input of the root filter: the entries of \<^verbatim>\<open>connect.where.node\<close> other than
  \<^verbatim>\<open>_on\<close>, without those whose key has a truthy value under \<^verbatim>\<open>_on[relatedNode.name]\<close>. The
  test is \<^verbatim>\<open>connect.where.node?._on?.[relatedNode.name]?.[k]\<close>, read here with \<open>getp\<close>: for a
  key \<^verbatim>\<open>k\<close> named like a member of \<^verbatim>\<open>Object.prototype\<close> and an \<^verbatim>\<open>_on\<close> entry that is a plain
  object the code finds the inherited member, which is truthy, and drops the root key.
\<close>

definition rootWhereInput :: "jsv \<Rightarrow> node \<Rightarrow> (string \<times> jsv) list" where
  "rootWhereInput whereNode relatedNode =
     fold (\<lambda>kv args.
             if fst kv \<noteq> ''_on'' then
               (if truthy (getp (getp (getp whereNode ''_on'') (name relatedNode)) (fst kv))
                then args
                else AList.update (fst kv) (snd kv) args)
             else args)
          (entries whereNode) []"

text \<open>
  The where input of the \<^verbatim>\<open>_on\<close> filter: every entry other than \<^verbatim>\<open>_on\<close>, and at the place
  of \<^verbatim>\<open>_on\<close> the entries of \<^verbatim>\<open>_on[relatedNode.name]\<close> spread over what has been collected.
\<close>

definition onTypeWhereInput :: "jsv \<Rightarrow> node \<Rightarrow> (string \<times> jsv) list" where
  "onTypeWhereInput whereNode relatedNode =
     fold (\<lambda>kv args.
             if fst kv \<noteq> ''_on'' then AList.update (fst kv) (snd kv) args
             else if hasOwn (snd kv) (name relatedNode)
               then fold (\<lambda>e. AList.update (fst e) (snd e))
                      (entries (getp (snd kv) (name relatedNode))) args
             else args)
          (entries whereNode) []"

definition quote :: "connectArgs \<Rightarrow> string" where
  "quote A = (if insideDoWhen A then [CHR 0x5C, CHR 0x22] else [CHR 0x22])"

text \<open>
  The pre-conditions (\<^verbatim>\<open>allow\<close> rules) of the nodes taking part: the related node, and the
  parent unless the connect comes from a create.
\<close>

definition nodeMatrix :: "connectArgs \<Rightarrow> node \<Rightarrow> (node \<times> string) list" where
  "nodeMatrix A relatedNode =
     [(relatedNode, varName A)] @ (if \<not> fromCreate A then [(parentNode A, parentVar A)] else [])"

definition allowPredicate :: "deps \<Rightarrow> connectArgs \<Rightarrow> nat \<Rightarrow> node \<times> string \<Rightarrow> predicate option" where
  "allowPredicate D A i nr =
     createAuthPredicates D
       \<lparr>entity = fst nr, operations = ''CONNECT'', authContext = connectContext A,
        escapeQuotes = insideDoWhen A, skipIsAuthenticated = False, skipRoles = False,
        rule = AllowRule (fst nr) (snd nr) (snd nr @ name (fst nr) @ string_of_nat i @ ''_allow'')\<rparr>"

definition preAuth :: "deps \<Rightarrow> connectArgs \<Rightarrow> node \<Rightarrow> predicate list" where
  "preAuth D A relatedNode =
     fold (\<lambda>inr result.
             if \<not> auth (fst (snd inr)) then result
             else
               (case allowPredicate D A (fst inr) (snd inr) of
                  None \<Rightarrow> result
                | Some authPredicate \<Rightarrow> result @ [authPredicate]))
          (enumerate 0 (nodeMatrix A relatedNode)) []"

text \<open>
  The \<^verbatim>\<open>OPTIONAL MATCH\<close> of the related node, with every \<^verbatim>\<open>matchClause.where(...)\<close> call in
  the order the function makes them. (The function returns early, before any of them, when
  the filter is narrowed away from the related node; see \<open>narrowedAway\<close> below.)
\<close>

definition whereCalls :: "deps \<Rightarrow> connectArgs \<Rightarrow> node \<Rightarrow> jsv \<Rightarrow> predicate list" where
  "whereCalls D A relatedNode connect =
     (let whereNode = getp (getp connect ''where'') ''node''
      in (if truthy (getp connect ''where'') then
            (case createWherePredicate D (varName A) (rootWhereInput whereNode relatedNode)
                    (connectContext A) relatedNode of
               None \<Rightarrow> [] | Some p \<Rightarrow> [p])
            @ (if truthy (getp (getp whereNode ''_on'') (name relatedNode)) then
                 (case createWherePredicate D (varName A) (onTypeWhereInput whereNode relatedNode)
                         (connectContext A) relatedNode of
                    None \<Rightarrow> [] | Some p \<Rightarrow> [p])
               else [])
          else [])
         @ (if auth relatedNode then
              (case createAuthPredicates D
                      \<lparr>entity = relatedNode, operations = ''CONNECT'',
                       authContext = connectContext A, escapeQuotes = False,
                       skipIsAuthenticated = False, skipRoles = False,
                       rule = WhereRule (varName A) relatedNode\<rparr> of
                 None \<Rightarrow> [] | Some p \<Rightarrow> [p])
            else [])
         @ (if preAuth D A relatedNode \<noteq> [] then
              [And (map (\<lambda>p. ValidatePredicate p (quote A @ AUTH_FORBIDDEN_ERROR D @ quote A))
                      (preAuth D A relatedNode))]
            else []))"

definition buildMatchClause :: "deps \<Rightarrow> connectArgs \<Rightarrow> node \<Rightarrow> jsv \<Rightarrow> matchClause" where
  "buildMatchClause D A relatedNode connect =
     \<lparr>matchPattern = NamedNode (varName A),
      matchWith = [map (\<lambda>withVar. Column (NamedVariable withVar)) (withVars A)]
                   @ (if subscriptionsEnabled (connectContext A) then [metaColumns D A] else []),
      matchWhere = whereCalls D A relatedNode connect\<rparr>"

text \<open>
  The write clauses. The relationship pattern runs from the related node to the parent with
  the type of the relationship field; \<^verbatim>\<open>createAsDuplicate\<close> replaces the \<^verbatim>\<open>MERGE\<close> of that
  pattern by raw text made of \<^verbatim>\<open>CREATE\<close> and the anonymous variable \<^verbatim>\<open>relationship\<close>.
\<close>

definition mergeOrCreateClause :: "connectArgs \<Rightarrow> jsv \<Rightarrow> clause" where
  "mergeOrCreateClause A connect =
     (if truthy (getp connect ''createAsDuplicate'')
      then RawCypher [Text ''CREATE '', Ref Variable]
      else Merge (NamedNode (varName A)) (NamedNode (parentVar A)) (type (relationField A)))"








section \<open>What createConnectAndParams returns\<close>

text \<open>
  What a call returns is built from strings only: \<^verbatim>\<open>createSubqueryContents\<close> returns
  \<^verbatim>\<open>{ subquery: subquery.join("\n"), params }\<close>, the reducer pushes that string between
  \<^verbatim>\<open>CALL {\<close> and \<^verbatim>\<open>}\<close>, and \<^verbatim>\<open>createConnectAndParams\<close> returns
  \<^verbatim>\<open>[connects.join("\n"), params]\<close>. The clause objects of the last section are local values
  of \<^verbatim>\<open>createSubqueryContents\<close>; no statement of the file serialises them or pushes them onto
  a buffer.
\<close>

subsection \<open>The early return\<close>

text \<open>
  \<^verbatim>\<open>_on\<close> is the only key of \<^verbatim>\<open>connect.where.node\<close> and has no entry for the related node.
\<close>

definition narrowedAway :: "jsv \<Rightarrow> node \<Rightarrow> bool" where
  "narrowedAway connect relatedNode =
     (let whereNode = getp (getp connect ''where'') ''node''
      in truthy (getp whereNode ''_on'')
         \<and> length (entries whereNode) = 1
         \<and> \<not> hasOwn (getp whereNode ''_on'') (name relatedNode))"

subsection \<open>createSubqueryContents\<close>

text \<open>
  The related node is \<open>None\<close> where the caller found none: the first statement that reads
  it (\<^verbatim>\<open>relatedNode.getLabelString(context)\<close>) throws a \<^verbatim>\<open>TypeError\<close>, and so do
  \<^verbatim>\<open>connect.where\<close> on a connect input that is \<^verbatim>\<open>undefined\<close> or \<^verbatim>\<open>null\<close> and
  \<^verbatim>\<open>connect.where.node._on\<close> on a \<^verbatim>\<open>where\<close> without \<^verbatim>\<open>node\<close>. A filter narrowed away from the
  related node returns the empty subquery and no parameters.

  Every other call builds the clause objects (the constructors of the builder and the
  collaborators are taken to return) and then comes, when
  \<^verbatim>\<open>includeRelationshipValidation\<close> is set, to the array literal
  \<^verbatim>\<open>[relatedNode, nodeName]\<close> and otherwise to \<^verbatim>\<open>subquery.push(...)\<close>. The file declares neither
  \<^verbatim>\<open>nodeName\<close> nor \<^verbatim>\<open>subquery\<close> (no \<^verbatim>\<open>const\<close>, \<^verbatim>\<open>let\<close>, parameter or import of that name; a
  comment keeps \<^verbatim>\<open>// const subquery = new Cypher.Call()\<close>), so the evaluation of the
  identifier throws a \<^verbatim>\<open>ReferenceError\<close>. The statements after it, the loop over the nested
  connects, the validation of the \<^verbatim>\<open>bind\<close> rules and the \<^verbatim>\<open>RETURN\<close> line, are not reached by any
  call. (Were the two names bound from outside the file, as properties of the global
  object, \<^verbatim>\<open>subquery\<close> would be one array for all calls; the model is of the file as it is
  written.) The parameter \<^verbatim>\<open>index\<close> is not read by the body.
\<close>

definition createSubqueryContents ::
  "deps \<Rightarrow> connectArgs \<Rightarrow> node option \<Rightarrow> jsv \<Rightarrow> nat \<Rightarrow> error + string \<times> params" where
  "createSubqueryContents D A relatedNodeOpt connect index =
     (case relatedNodeOpt of
        None \<Rightarrow> Inl TypeError
      | Some relatedNode \<Rightarrow>
          if connect = JUndefined \<or> connect = JNull then Inl TypeError
          else if truthy (getp connect ''where'')
                  \<and> (getp (getp connect ''where'') ''node'' = JUndefined
                       \<or> getp (getp connect ''where'') ''node'' = JNull)
            then Inl TypeError
          else if truthy (getp connect ''where'') \<and> narrowedAway connect relatedNode
            then Inr ([], Map.empty)
          else Inl ReferenceError)"

subsection \<open>The reducer and createConnectAndParams\<close>

definition whereAuth :: "deps \<Rightarrow> connectArgs \<Rightarrow> string \<times> params" where
  "whereAuth D A =
     createAuthAndParams D
       \<lparr>entity = parentNode A, operations = ''CONNECT'', authContext = connectContext A,
        escapeQuotes = False, skipIsAuthenticated = False, skipRoles = False,
        rule = WhereRule (parentVar A) (parentNode A)\<rparr>"

text \<open>The statements of the reducer before it turns to the related nodes.\<close>

definition reducerHead :: "deps \<Rightarrow> connectArgs \<Rightarrow> res \<Rightarrow> res" where
  "reducerHead D A res =
     (let res1 =
            (if auth (parentNode A) \<and> \<not> fromCreate A \<and> fst (whereAuth D A) \<noteq> []
             then (fst res @ [''WITH '' @ join '', '' (withVars A), ''WHERE '' @ fst (whereAuth D A)],
                   snd res ++ snd (whereAuth D A))
             else res)
      in if isFirstLevel A then (fst res1 @ [''WITH '' @ join '', '' (withVars A)], snd res1)
         else res1)"

definition interfaceSeparator :: "deps \<Rightarrow> connectArgs \<Rightarrow> string" where
  "interfaceSeparator D A =
     (if subscriptionsEnabled (connectContext A)
      then [CHR 0x0A] @ ''}'' @ [CHR 0x0A]
           @ ''WITH '' @ join '', '' (filterMetaVariable D (withVars A)) @ '', connect_meta + meta AS meta''
           @ [CHR 0x0A] @ ''CALL {'' @ [CHR 0x0A, CHR 0x09]
      else [CHR 0x0A] @ ''}'' @ [CHR 0x0A] @ ''CALL {'' @ [CHR 0x0A, CHR 0x09])"

text \<open>
  The body of \<^verbatim>\<open>refNodes.forEach\<close> for an interface field, on the pair of \<^verbatim>\<open>subqueries\<close> and
  \<^verbatim>\<open>res.params\<close>: an empty subquery is left out.
\<close>

definition interfaceStep ::
  "deps \<Rightarrow> connectArgs \<Rightarrow> jsv \<Rightarrow> nat \<times> node option \<Rightarrow> res \<Rightarrow> error + res" where
  "interfaceStep D A connect ir sp =
     (case createSubqueryContents D A (snd ir) connect (fst ir) of
        Inl e \<Rightarrow> Inl e
      | Inr sub \<Rightarrow>
          if fst sub \<noteq> [] then Inr (fst sp @ [fst sub], snd sp ++ snd sub)
          else Inr sp)"

text \<open>
  The line that carries \<^verbatim>\<open>meta\<close> on after a \<^verbatim>\<open>CALL\<close> block when subscriptions are
  enabled, and the lines pushed for a non-empty \<^verbatim>\<open>inner\<close>.
\<close>

definition metaCarry :: "deps \<Rightarrow> connectArgs \<Rightarrow> string" where
  "metaCarry D A =
     ''WITH connect_meta + meta AS meta, '' @ join '', '' (filterMetaVariable D (withVars A))"

definition callBlock :: "deps \<Rightarrow> connectArgs \<Rightarrow> string list \<Rightarrow> string list" where
  "callBlock D A inner =
     (if inner \<noteq> []
      then [''CALL {''] @ inner @ [''}'']
           @ (if subscriptionsEnabled (connectContext A) then [metaCarry D A] else [])
      else [])"

text \<open>
  \<^verbatim>\<open>reducer(res, connect, index)\<close>, with the pair \<open>ic\<close> of \<^verbatim>\<open>index\<close> and \<^verbatim>\<open>connect\<close>. For a field
  that is not an interface the subquery of \<^verbatim>\<open>refNodes[0]\<close> is pushed whatever it is.
\<close>

definition reducer :: "deps \<Rightarrow> connectArgs \<Rightarrow> nat \<times> jsv \<Rightarrow> res \<Rightarrow> error + res" where
  "reducer D A ic res =
     (if interface (relationField A) \<noteq> None then
        (case foldE (interfaceStep D A (snd ic)) (enumerate 0 (refNodes A))
                ([], snd (reducerHead D A res)) of
           Inl e \<Rightarrow> Inl e
         | Inr sp \<Rightarrow>
             Inr (fst (reducerHead D A res)
                    @ callBlock D A
                        (if fst sp \<noteq> [] then [join (interfaceSeparator D A) (fst sp)] else []),
                  snd sp))
      else
        (case createSubqueryContents D A
                (case refNodes A of [] \<Rightarrow> None | r # rs \<Rightarrow> r) (snd ic) (fst ic) of
           Inl e \<Rightarrow> Inl e
         | Inr sub \<Rightarrow>
             Inr (fst (reducerHead D A res) @ callBlock D A [fst sub],
                  snd (reducerHead D A res) ++ snd sub)))"

text \<open>\<^verbatim>\<open>relationField.typeMeta.array ? value : [value]\<close>, on which \<^verbatim>\<open>reduce\<close> is called.\<close>

definition connectValues :: "connectArgs \<Rightarrow> error + jsv list" where
  "connectValues A =
     (if typeMeta_array (relationField A)
      then (case value_in A of JArr xs \<Rightarrow> Inr xs | _ \<Rightarrow> Inl TypeError)
      else Inr [value_in A])"

text \<open>
  The recursive call of \<^verbatim>\<open>createConnectAndParams\<close> stands in the loop over the nested
  connects, after the \<^verbatim>\<open>ReferenceError\<close>: no call reaches it, and the function is its
  \<^verbatim>\<open>reduce\<close> over the connect inputs.
\<close>

definition createConnectAndParams :: "deps \<Rightarrow> connectArgs \<Rightarrow> error + string \<times> params" where
  "createConnectAndParams D A =
     (case connectValues A of
        Inl e \<Rightarrow> Inl e
      | Inr vs \<Rightarrow>
          (case foldE (reducer D A) (enumerate 0 vs) ([], Map.empty) of
             Inl e \<Rightarrow> Inl e
           | Inr res \<Rightarrow> Inr (join [CHR 0x0A] (fst res), snd res)))"

section \<open>The one-time deprecation warning of getCustomResolverMeta\<close>

text \<open>
  The schema builder calls \<^verbatim>\<open>getCustomResolverMeta\<close> once per field. The function keeps the
  module-level flag \<^verbatim>\<open>deprecationWarningShown\<close> and prints with \<^verbatim>\<open>console.warn\<close>; both are
  made explicit as the state \<open>proc\<close> that every call takes and returns. A \<^verbatim>\<open>throw\<close> is the
  left summand of the result.
\<close>

datatype argValue = StringValue string | ListValue "string list" | OtherValue

record directiveNode =
  directiveName :: string
  arguments :: "(string \<times> argValue) list"

record fieldDefinitionNode =
  fieldNameValue :: string
  directives :: "directiveNode list"

datatype objectKind = OBJECT_TYPE_DEFINITION | INTERFACE_TYPE_DEFINITION

record proc =
  deprecationWarningShown :: bool
  console :: "string list"

record 't customResolverInput =
  field :: fieldDefinitionNode
  objectKindOf :: objectKind
  customResolvers :: "string list"
  interfaceField :: "fieldDefinitionNode option"
  removeDuplicates :: "string list \<Rightarrow> string list"
  selectionSetToResolveTree :: "string \<Rightarrow> string + 't"

definition DEPRECATION_WARNING :: string where
  "DEPRECATION_WARNING =
     ''The @computed directive has been deprecated and will be removed in version 4.0.0. Please use '' @
     ''the @customResolver directive instead. More information can be found at '' @
     ''https://neo4j.com/docs/graphql-manual/current/guides/v4-migration/#_computed_renamed_to_customresolver.''"

text \<open>
  \<^verbatim>\<open>field.directives?.find(p) || interfaceField?.directives?.find(p)\<close>: the field's own
  directive wins, the interface field's is the fallback.
\<close>

definition findDirective :: "string \<Rightarrow> 't customResolverInput \<Rightarrow> directiveNode option" where
  "findDirective n i =
     (case find (\<lambda>x. directiveName x = n) (directives (field i)) of
        Some d \<Rightarrow> Some d
      | None \<Rightarrow>
          (case interfaceField i of
             None \<Rightarrow> None
           | Some f \<Rightarrow> find (\<lambda>x. directiveName x = n) (directives f)))"

definition findArgument :: "string \<Rightarrow> directiveNode option \<Rightarrow> argValue option" where
  "findArgument n d =
     (case d of
        None \<Rightarrow> None
      | Some dn \<Rightarrow> map_option snd (find (\<lambda>a. fst a = n) (arguments dn)))"

text \<open>
  The first statement of the function: warn once, and remember it. It runs before any
  \<^verbatim>\<open>return\<close> or \<^verbatim>\<open>throw\<close> of the function.
\<close>

definition warnDeprecated :: "proc \<Rightarrow> 't customResolverInput \<Rightarrow> proc" where
  "warnDeprecated s i =
     (if findDirective ''computed'' i \<noteq> None \<and> \<not> deprecationWarningShown s
      then s\<lparr>console := console s @ [DEPRECATION_WARNING], deprecationWarningShown := True\<rparr>
      else s)"

text \<open>
  The rest of the function decides the result. The library call \<^verbatim>\<open>parse\<close> followed by
  \<^verbatim>\<open>selectionSetToResolveTree\<close> is the input's \<open>selectionSetToResolveTree\<close>, from the text of the
  selection set to the resolve tree (an object, so always truthy) or the error thrown;
  \<^verbatim>\<open>removeDuplicates\<close> is imported from the utilities and taken as given.
\<close>

definition customResolverResult :: "'t customResolverInput \<Rightarrow> string + 't option" where
  "customResolverResult i =
     (let deprecatedDirective = findDirective ''computed'' i;
          directive = findDirective ''customResolver'' i
      in if directive = None \<and> deprecatedDirective = None then Inr None
         else if objectKindOf i \<noteq> INTERFACE_TYPE_DEFINITION \<and> directive \<noteq> None
                 \<and> fieldNameValue (field i) \<notin> set (customResolvers i)
           then Inl (''Custom resolver for '' @ fieldNameValue (field i) @ '' has not been provided'')
         else
           (case (case findArgument ''requires'' directive of
                    Some a \<Rightarrow> Some a
                  | None \<Rightarrow> findArgument ''from'' deprecatedDirective) of
              None \<Rightarrow> Inr None
            | Some (StringValue v) \<Rightarrow>
                (case selectionSetToResolveTree i (''{ '' @ v @ '' }'') of
                   Inl e \<Rightarrow> Inl e
                 | Inr t \<Rightarrow> Inr (Some t))
            | Some (ListValue vs) \<Rightarrow>
                (case selectionSetToResolveTree i
                        (''{ '' @ join '' '' (removeDuplicates i vs) @ '' }'') of
                   Inl e \<Rightarrow> Inl e
                 | Inr t \<Rightarrow> Inr (Some t))
            | Some OtherValue \<Rightarrow> Inr None))"

definition getCustomResolverMeta ::
  "proc \<Rightarrow> 't customResolverInput \<Rightarrow> (string + 't option) \<times> proc" where
  "getCustomResolverMeta s i = (customResolverResult i, warnDeprecated s i)"

text \<open>A sequence of calls in one process: each call starts from the state the last one left.\<close>

fun calls :: "proc \<Rightarrow> 't customResolverInput list \<Rightarrow> proc" where
  "calls s [] = s"
| "calls s (i # is) = calls (snd (getCustomResolverMeta s i)) is"

definition moduleLoaded :: proc where
  "moduleLoaded = \<lparr>deprecationWarningShown = False, console = []\<rparr>"

definition encountersDeprecated :: "'t customResolverInput \<Rightarrow> bool" where
  "encountersDeprecated i = (findDirective ''computed'' i \<noteq> None)"

subsection \<open>Example inputs\<close>

definition computedField :: fieldDefinitionNode where
  "computedField =
     \<lparr>fieldNameValue = ''fullName'',
      directives = [\<lparr>directiveName = ''computed'', arguments = [(''from'', ListValue [''firstName''])]\<rparr>]\<rparr>"

definition plainField :: fieldDefinitionNode where
  "plainField = \<lparr>fieldNameValue = ''id'', directives = []\<rparr>"

definition inputOf :: "fieldDefinitionNode \<Rightarrow> string customResolverInput" where
  "inputOf f =
     \<lparr>field = f, objectKindOf = OBJECT_TYPE_DEFINITION, customResolvers = [],
      interfaceField = None, removeDuplicates = remdups, selectionSetToResolveTree = Inr\<rparr>"

section \<open>Reads with a sort\<close>

text \<open>
  The sort tests (\<^verbatim>\<open>src/unnamed/part_002\<close>) translate reads such as
  \<^verbatim>\<open>movies(options: { sort: [{ totalGenres: DESC }] }) { totalGenres }\<close> and
  \<^verbatim>\<open>moviesConnection(sort: [{ title: ASC }]) { edges { node { title totalGenres } } }\<close> and
  compare the Cypher with a snapshot. The statement of a \<^verbatim>\<open>@cypher\<close> field is evaluated where
  a projection holds \<^verbatim>\<open>totalGenres: apoc.cypher.runFirstColumn(...)\<close>; \<^verbatim>\<open>.totalGenres\<close> reads
  a value that is there already.

  Of a translated read the model keeps the clauses that the sorting rule is about, in
  their order: the \<^verbatim>\<open>MATCH\<close>, \<^verbatim>\<open>ORDER BY\<close>, \<^verbatim>\<open>SKIP\<close>, \<^verbatim>\<open>LIMIT\<close>, and \<open>Evaluate fs\<close> at every
  projection, with the computed fields \<open>fs\<close> whose statements that projection evaluates
  (none, for a projection of stored properties).
\<close>

datatype readClause = MatchNodes | Evaluate "string list" | OrderBy "string list" | Skip | Limit

record readOperation =
  selectionSet :: "string list"
  sortFields :: "string list"
  offset :: "nat option"
  limit :: "nat option"

text \<open>
  Modelled from the spec: the read translator (what \<^verbatim>\<open>translateQuery\<close> runs for a read) is
  not among the sources, only its snapshot tests are. The model follows the sorting rule
  of the spec, "if sorting on a computed field, projection of that field must occur before
  the sort/limit/offset clauses (since the sort needs its value materialized); if sorting
  only on stored fields, projection may be deferred until after pagination": the computed
  fields that the sort names are evaluated by a projection before \<^verbatim>\<open>ORDER BY\<close>, every other
  computed field of the selection by the projection after \<^verbatim>\<open>LIMIT\<close>. \<open>cypherFields\<close> are the
  names of the computed fields of the node type.
\<close>

definition translateRead :: "string list \<Rightarrow> readOperation \<Rightarrow> readClause list" where
  "translateRead cypherFields q =
     [MatchNodes,
      Evaluate (filter (\<lambda>f. f \<in> set cypherFields) (remdups (sortFields q)))]
     @ (if sortFields q \<noteq> [] then [OrderBy (sortFields q)] else [])
     @ (case offset q of None \<Rightarrow> [] | Some n \<Rightarrow> [Skip])
     @ (case limit q of None \<Rightarrow> [] | Some n \<Rightarrow> [Limit])
     @ [Evaluate (filter (\<lambda>f. f \<in> set cypherFields \<and> f \<notin> set (sortFields q)) (selectionSet q))]"

text \<open>The computed fields that a clause evaluates, and the clauses that sort or paginate.\<close>

fun evaluated :: "readClause \<Rightarrow> string list" where
  "evaluated (Evaluate fs) = fs"
| "evaluated c = []"

fun sortsOrPaginates :: "readClause \<Rightarrow> bool" where
  "sortsOrPaginates (OrderBy fs) = True"
| "sortsOrPaginates Skip = True"
| "sortsOrPaginates Limit = True"
| "sortsOrPaginates c = False"

text \<open>
  Three parts of a program: the clauses before the first of \<^verbatim>\<open>ORDER BY\<close>, \<^verbatim>\<open>SKIP\<close> and
  \<^verbatim>\<open>LIMIT\<close>; the clauses from that one on; and the clauses up to the last of them, that one
  included, with the clauses after the last of them.
\<close>

definition beforeSort :: "readClause list \<Rightarrow> readClause list" where
  "beforeSort prog = takeWhile (\<lambda>c. \<not> sortsOrPaginates c) prog"

definition fromSort :: "readClause list \<Rightarrow> readClause list" where
  "fromSort prog = dropWhile (\<lambda>c. \<not> sortsOrPaginates c) prog"

definition uptoPagination :: "readClause list \<Rightarrow> readClause list" where
  "uptoPagination prog = rev (dropWhile (\<lambda>c. \<not> sortsOrPaginates c) (rev prog))"

definition afterPagination :: "readClause list \<Rightarrow> readClause list" where
  "afterPagination prog = rev (takeWhile (\<lambda>c. \<not> sortsOrPaginates c) (rev prog))"

definition evaluatedIn :: "readClause list \<Rightarrow> string list" where
  "evaluatedIn cs = concat (map evaluated cs)"

text \<open>
  Reads of the snapshot tests, the first with the pagination of the test
  "Sort with offset limit" added: the computed fields of \<^verbatim>\<open>Movie\<close> are \<^verbatim>\<open>totalGenres\<close> and
  \<^verbatim>\<open>totalActors\<close>.
\<close>

definition movieCypherFields :: "string list" where
  "movieCypherFields = [''totalGenres'', ''totalActors'']"

definition sortOnTotalGenres :: readOperation where
  "sortOnTotalGenres =
     \<lparr>selectionSet = [''title'', ''totalGenres'', ''totalActors''], sortFields = [''totalGenres''],
      offset = Some 10, limit = Some 5\<rparr>"

definition sortOnTitle :: readOperation where
  "sortOnTitle =
     \<lparr>selectionSet = [''title'', ''totalGenres''], sortFields = [''title''],
      offset = None, limit = Some 5\<rparr>"

section \<open>An example schema and example inputs\<close>

text \<open>
  Movies, series and actors: \<^verbatim>\<open>Movie.actors\<close> is a list of actors, and \<^verbatim>\<open>Actor.actedIn\<close> is
  typed by the interface \<^verbatim>\<open>Production\<close>, which \<^verbatim>\<open>Movie\<close> and \<^verbatim>\<open>Series\<close> implement. All three
  node types carry authorization rules.
\<close>

definition actorsField :: relationField where
  "actorsField =
     \<lparr>fieldName = ''actors'', type = ''ACTED_IN'', direction = ''IN'', properties = None,
      union_field = False, interface = None, typeMeta_name = ''Actor'', typeMeta_array = True\<rparr>"

definition actedInField :: relationField where
  "actedInField =
     \<lparr>fieldName = ''actedIn'', type = ''ACTED_IN'', direction = ''OUT'', properties = None,
      union_field = False, interface = Some [''Movie'', ''Series''],
      typeMeta_name = ''Production'', typeMeta_array = True\<rparr>"

definition Movie :: node where
  "Movie = \<lparr>name = ''Movie'', auth = True, relationFields = [actorsField]\<rparr>"

definition Series :: node where
  "Series = \<lparr>name = ''Series'', auth = True, relationFields = [actorsField]\<rparr>"

definition Actor :: node where
  "Actor = \<lparr>name = ''Actor'', auth = True, relationFields = [actedInField]\<rparr>"

definition exampleContext :: ctx where
  "exampleContext =
     \<lparr>subscriptionsEnabled = False, nodes = [Movie, Series, Actor], relationships = []\<rparr>"

text \<open>
  Collaborators that answer with a text naming what they were asked: the where predicate
  names the target and the keys and values it was given, an \<^verbatim>\<open>allow\<close> or \<^verbatim>\<open>where\<close> predicate
  names its entity, and the \<^verbatim>\<open>where\<close> rule of \<^verbatim>\<open>createAuthAndParams\<close> is a comparison against
  one parameter.
\<close>

fun showValue :: "jsv \<Rightarrow> string" where
  "showValue (JStr s) = s"
| "showValue (JBool b) = (if b then ''true'' else ''false'')"
| "showValue v = ''?''"

definition exampleDeps :: deps where
  "exampleDeps =
     \<lparr>createWherePredicate =
        (\<lambda>target whereInput C element.
           if whereInput = [] then None
           else Some (Opaque (target @ '': ''
                        @ join '', '' (map (\<lambda>kv. fst kv @ '' = '' @ showValue (snd kv)) whereInput)))),
      createAuthPredicates = (\<lambda>a. Some (Opaque (''rule of '' @ name (entity a)))),
      createAuthAndParams =
        (\<lambda>a. case rule a of
                WhereRule v n \<Rightarrow> (v @ ''.owner = $'' @ v @ ''_auth'', [v @ ''_auth'' \<mapsto> JStr ''sub''])
              | BindRule n v chainStr \<Rightarrow> ([], Map.empty)
              | AllowRule n v chainStr \<Rightarrow> ([], Map.empty)),
      createSetRelationshipPropertiesAndParams = (\<lambda>edge v r. ([], Map.empty)),
      createConnectionEventMetaObject = join '', '',
      filterMetaVariable = filter (\<lambda>v. v \<noteq> ''meta''),
      AUTH_FORBIDDEN_ERROR = ''@neo4j/graphql/FORBIDDEN'',
      patternName = ''rel''\<rparr>"

text \<open>
  \<^verbatim>\<open>connect: { actors: ... }\<close> on an update of movies (\<open>fromCreate\<close> is false) or inside a
  create of a movie (\<open>fromCreate\<close> is true), with the connect inputs \<open>v\<close>.
\<close>

definition connectActors :: "bool \<Rightarrow> jsv \<Rightarrow> connectArgs" where
  "connectActors create v =
     \<lparr>withVars = [''this''], value_in = v, varName = ''this_connect_actors'',
      relationField = actorsField, parentVar = ''this'', connectContext = exampleContext,
      refNodes = [Some Actor], labelOverride = [], parentNode = Movie, fromCreate = create,
      insideDoWhen = False, includeRelationshipValidation = False, isFirstLevel = True\<rparr>"

text \<open>\<^verbatim>\<open>connect: { actedIn: ... }\<close> on an update of actors: an interface field.\<close>

definition connectActedIn :: "jsv \<Rightarrow> connectArgs" where
  "connectActedIn v =
     \<lparr>withVars = [''this''], value_in = v, varName = ''this_connect_actedIn'',
      relationField = actedInField, parentVar = ''this'', connectContext = exampleContext,
      refNodes = [Some Movie, Some Series], labelOverride = [], parentNode = Actor,
      fromCreate = False, insideDoWhen = False, includeRelationshipValidation = False,
      isFirstLevel = True\<rparr>"

text \<open>\<^verbatim>\<open>{ where: { node: { name: n } } }\<close>.\<close>

definition whereName :: "string \<Rightarrow> jsv" where
  "whereName n = JObj [(''where'', JObj [(''node'', JObj [(''name'', JStr n)])])]"

text \<open>\<^verbatim>\<open>{ where: { node: { _on: { Series: { title: "s" } } } } }\<close>: narrowed to series only.\<close>

definition onlySeries :: jsv where
  "onlySeries =
     JObj [(''where'', JObj [(''node'',
        JObj [(''_on'', JObj [(''Series'', JObj [(''title'', JStr ''s'')])])])])]"

text \<open>
  \<^verbatim>\<open>{ released: true, _on: { Movie: { released: false } } }\<close>: the key of the root filter
  is overridden for movies, by a value that is falsy.
\<close>

definition releasedOverridden :: jsv where
  "releasedOverridden =
     JObj [(''released'', JBool True),
           (''_on'', JObj [(''Movie'', JObj [(''released'', JBool False)])])]"

text \<open>
  \<^verbatim>\<open>{ _on: { Movie: { title: "on" } }, title: "root" }\<close>: the overridden key comes after
  \<^verbatim>\<open>_on\<close> in the object.
\<close>

definition titleAfterOn :: jsv where
  "titleAfterOn =
     JObj [(''_on'', JObj [(''Movie'', JObj [(''title'', JStr ''on'')])]),
           (''title'', JStr ''root'')]"

text \<open>\<^verbatim>\<open>{ where: { node: { name: n } }, createAsDuplicate: true }\<close>.\<close>

definition duplicateName :: "string \<Rightarrow> jsv" where
  "duplicateName n =
     JObj [(''createAsDuplicate'', JBool True),
           (''where'', JObj [(''node'', JObj [(''name'', JStr n)])])]"

text \<open>
  \<^verbatim>\<open>{ where: { node: { name: n } }, connect: { actedIn: [{ where: { node: { title: t } } }] } }\<close>:
  a connect of an actor with a nested connect of a production.
\<close>

definition nestedName :: "string \<Rightarrow> string \<Rightarrow> jsv" where
  "nestedName n t =
     JObj [(''where'', JObj [(''node'', JObj [(''name'', JStr n)])]),
           (''connect'', JObj [(''actedIn'',
              JArr [JObj [(''where'', JObj [(''node'', JObj [(''title'', JStr t)])])]])])]"


section \<open>Notions used to state the properties\<close>




section \<open>Lemmas about createSubqueryContents\<close>

text \<open>
  The outcome of a call depends on the connect input through five tests only: whether it
  is \<^verbatim>\<open>undefined\<close> or \<^verbatim>\<open>null\<close>, whether \<^verbatim>\<open>where\<close> is truthy, whether \<^verbatim>\<open>where.node\<close> is there,
  and whether the filter is narrowed away.
\<close>

lemma createSubqueryContents_cong:
  assumes a1: "(c = JUndefined \<or> c = JNull) = (c' = JUndefined \<or> c' = JNull)"
    and a2: "truthy (getp c ''where'') = truthy (getp c' ''where'')"
    and a3: "(getp (getp c ''where'') ''node'' = JUndefined
                \<or> getp (getp c ''where'') ''node'' = JNull)
           = (getp (getp c' ''where'') ''node'' = JUndefined
                \<or> getp (getp c' ''where'') ''node'' = JNull)"
    and a4: "\<And>m. narrowedAway c m = narrowedAway c' m"
  shows "createSubqueryContents D A relatedNode c idx
       = createSubqueryContents D' A' relatedNode c' idx'"
  unfolding createSubqueryContents_def a1 a2 a3 a4 ..

lemma createSubqueryContents_outcomes:
  "createSubqueryContents D A relatedNode c idx
     \<in> {Inl TypeError, Inl ReferenceError, Inr ([], Map.empty)}"
  by (simp add: createSubqueryContents_def split: option.split)


lemma narrowed_empty:
  assumes "getp connect ''where'' = JObj w"
    and "map_of w ''node'' = Some (JObj [(''_on'', JObj on)])"
    and "map_of on (name n) = None"
  shows "createSubqueryContents D A (Some n) connect idx = Inr ([], Map.empty)"
proof -
  from assms(1) have c: "connect \<noteq> JUndefined" "connect \<noteq> JNull" by auto
  from assms have "narrowedAway connect n" by (simp add: narrowedAway_def)
  with assms(1,2) c show ?thesis by (simp add: createSubqueryContents_def)
qed

lemma not_narrowed_throws:
  assumes "connect = JObj kvs"
    and "\<not> truthy (getp connect ''where'') \<or> (\<exists>w. getp (getp connect ''where'') ''node'' = JObj w)"
    and "\<not> narrowedAway connect n"
  shows "createSubqueryContents D A (Some n) connect idx = Inl ReferenceError"
  using assms by (auto simp: createSubqueryContents_def)

section \<open>Lemmas about the loops\<close>

lemma foldE_fails:
  assumes "x \<in> set xs" and "\<And>s. \<exists>e. f x s = Inl e"
  shows "\<exists>e. foldE f xs s = Inl e"
  using assms(1)
proof (induction xs arbitrary: s)
  case Nil
  then show ?case by simp
next
  case (Cons y ys)
  show ?case
  proof (cases "f y s")
    case (Inl e)
    then show ?thesis by simp
  next
    case (Inr s')
    show ?thesis
    proof (cases "x = y")
      case True
      with assms(2) [of s] Inr show ?thesis by simp
    next
      case False
      with Cons.prems have "x \<in> set ys" by simp
      from Cons.IH [OF this, of s'] Inr show ?thesis by simp
    qed
  qed
qed

lemma enumerate_member:
  "x \<in> set xs \<Longrightarrow> \<exists>j. (j, x) \<in> set (enumerate k xs)"
  by (induction xs arbitrary: k) auto











lemma string_of_nat_0: "string_of_nat 0 = ''0''"
  by code_simp

lemma string_of_nat_1: "string_of_nat (Suc 0) = ''1''"
  by code_simp

section \<open>The collaborators that only the clause objects use\<close>

text \<open>
  \<^verbatim>\<open>createAuthPredicates\<close> and \<^verbatim>\<open>createWherePredicate\<close> are called for the clause objects
  only. Replacing them by any other functions leaves every function of the returned text
  as it is.
\<close>

lemma reducerHead_frame:
  "reducerHead (D\<lparr>createAuthPredicates := f, createWherePredicate := g\<rparr>) = reducerHead D"
  by (intro ext) (simp add: reducerHead_def whereAuth_def cong: if_cong)

lemma callBlock_frame:
  "callBlock (D\<lparr>createAuthPredicates := f, createWherePredicate := g\<rparr>) = callBlock D"
  by (intro ext) (simp add: callBlock_def metaCarry_def cong: if_cong)

lemma interfaceStep_frame:
  "interfaceStep (D\<lparr>createAuthPredicates := f, createWherePredicate := g\<rparr>) = interfaceStep D"
  by (intro ext) (simp add: interfaceStep_def createSubqueryContents_def)

lemma reducer_frame:
  "reducer (D\<lparr>createAuthPredicates := f, createWherePredicate := g\<rparr>) = reducer D"
proof -
  have "interfaceSeparator (D\<lparr>createAuthPredicates := f, createWherePredicate := g\<rparr>)
      = interfaceSeparator D"
    by (intro ext) (simp add: interfaceSeparator_def)
  moreover have "createSubqueryContents (D\<lparr>createAuthPredicates := f, createWherePredicate := g\<rparr>)
      = createSubqueryContents D"
    by (intro ext) (simp add: createSubqueryContents_def)
  ultimately show ?thesis
    by (intro ext)
       (simp add: reducer_def reducerHead_frame callBlock_frame interfaceStep_frame
          cong: sum.case_cong if_cong)
qed

section \<open>The subscription switch\<close>
















section \<open>The stages of a read\<close>

lemma translateRead_beforeSort:
  "evaluatedIn (beforeSort (translateRead cs q))
     = filter (\<lambda>f. f \<in> set cs) (remdups (sortFields q))
       @ (if sortFields q = [] \<and> offset q = None \<and> limit q = None
          then filter (\<lambda>f. f \<in> set cs \<and> f \<notin> set (sortFields q)) (selectionSet q) else [])"
  by (cases "offset q"; cases "limit q")
     (simp_all add: evaluatedIn_def beforeSort_def translateRead_def)

lemma translateRead_fromSort:
  "sortFields q \<noteq> [] \<Longrightarrow>
   evaluatedIn (fromSort (translateRead cs q))
     = filter (\<lambda>f. f \<in> set cs \<and> f \<notin> set (sortFields q)) (selectionSet q)"
  by (cases "offset q"; cases "limit q")
     (simp_all add: evaluatedIn_def fromSort_def translateRead_def)

lemma translateRead_afterPagination:
  "evaluatedIn (afterPagination (translateRead cs q))
     = (if sortFields q = [] \<and> offset q = None \<and> limit q = None
        then filter (\<lambda>f. f \<in> set cs) (remdups (sortFields q)) else [])
       @ filter (\<lambda>f. f \<in> set cs \<and> f \<notin> set (sortFields q)) (selectionSet q)"
  by (cases "offset q"; cases "limit q")
     (simp_all add: evaluatedIn_def afterPagination_def translateRead_def)

lemma translateRead_uptoPagination:
  "evaluatedIn (uptoPagination (translateRead cs q))
     = (if sortFields q = [] \<and> offset q = None \<and> limit q = None
        then [] else filter (\<lambda>f. f \<in> set cs) (remdups (sortFields q)))"
  by (cases "offset q"; cases "limit q")
     (simp_all add: evaluatedIn_def uptoPagination_def translateRead_def)

section \<open>The claims\<close>

text \<open>
  Claim C1 (merge by default, a new edge with \<^verbatim>\<open>createAsDuplicate\<close>). The claim asks that the
  emitted clause is a \<^verbatim>\<open>MERGE\<close> by default and an unconditional \<^verbatim>\<open>CREATE\<close> of the relationship
  when \<^verbatim>\<open>connect.createAsDuplicate\<close> is set. What \<^verbatim>\<open>createSubqueryContents\<close> does with the
  flag: for every connect input, adding \<^verbatim>\<open>createAsDuplicate: true\<close> leaves the outcome of the
  call exactly as it is without it (the same error, or the same text and the same
  parameters); and the clause object that the flag selects is the raw text \<^verbatim>\<open>CREATE\<close>
  followed by the anonymous variable \<^verbatim>\<open>relationship\<close>, not by the relationship pattern from
  the related node to the parent.
\<close>

theorem createAsDuplicate_leaves_text_unchanged:
  "createSubqueryContents D A relatedNode (JObj ((''createAsDuplicate'', JBool True) # kvs)) idx
     = createSubqueryContents D A relatedNode (JObj kvs) idx
   \<and> mergeOrCreateClause A (JObj ((''createAsDuplicate'', JBool True) # kvs))
     = RawCypher [Text ''CREATE '', Ref Variable]"
proof -
  let ?c = "JObj ((''createAsDuplicate'', JBool True) # kvs)"
  have g: "getp ?c ''where'' = getp (JObj kvs) ''where''"
    by simp
  have n: "narrowedAway ?c m = narrowedAway (JObj kvs) m" for m
    unfolding narrowedAway_def g ..
  have "createSubqueryContents D A relatedNode ?c idx
      = createSubqueryContents D A relatedNode (JObj kvs) idx"
    by (rule createSubqueryContents_cong) (simp_all only: g n, simp)
  moreover have "mergeOrCreateClause A ?c = RawCypher [Text ''CREATE '', Ref Variable]"
    by (simp add: mergeOrCreateClause_def)
  ultimately show ?thesis by blast
qed

theorem createAsDuplicate_leaves_text_unchanged_witness:
  "createSubqueryContents exampleDeps (connectActors True (JArr [duplicateName ''a'']))
      (Some Actor) (duplicateName ''a'') 0
     = Inl ReferenceError
   \<and> createSubqueryContents exampleDeps (connectActors True (JArr [duplicateName ''a'']))
      (Some Actor) (whereName ''a'') 0
     = Inl ReferenceError
   \<and> mergeOrCreateClause (connectActors True (JArr [duplicateName ''a''])) (duplicateName ''a'')
     = RawCypher [Text ''CREATE '', Ref Variable]
   \<and> mergeOrCreateClause (connectActors True (JArr [duplicateName ''a''])) (whereName ''a'')
     = Merge (NamedNode ''this_connect_actors'') (NamedNode ''this'') ''ACTED_IN''"
proof -
  have w: "JObj [(''where'', JObj [(''node'', JObj [(''name'', JStr ''a'')])])] = whereName ''a''"
    by (simp add: whereName_def)
  have d: "JObj [(''createAsDuplicate'', JBool True),
                 (''where'', JObj [(''node'', JObj [(''name'', JStr ''a'')])])] = duplicateName ''a''"
    by (simp add: duplicateName_def)
  have r: "createSubqueryContents exampleDeps (connectActors True (JArr [duplicateName ''a'']))
      (Some Actor) (whereName ''a'') 0 = Inl ReferenceError"
    by (simp add: createSubqueryContents_def narrowedAway_def whereName_def)
  have m: "mergeOrCreateClause (connectActors True (JArr [duplicateName ''a''])) (whereName ''a'')
     = Merge (NamedNode ''this_connect_actors'') (NamedNode ''this'') ''ACTED_IN''"
    by (simp add: mergeOrCreateClause_def whereName_def connectActors_def actorsField_def)
  from createAsDuplicate_leaves_text_unchanged
    [of exampleDeps "connectActors True (JArr [duplicateName ''a''])" "Some Actor"
        "[(''where'', JObj [(''node'', JObj [(''name'', JStr ''a'')])])]" 0]
  have "createSubqueryContents exampleDeps (connectActors True (JArr [duplicateName ''a'']))
          (Some Actor) (duplicateName ''a'') 0
        = createSubqueryContents exampleDeps (connectActors True (JArr [duplicateName ''a'']))
          (Some Actor) (whereName ''a'') 0
      \<and> mergeOrCreateClause (connectActors True (JArr [duplicateName ''a''])) (duplicateName ''a'')
        = RawCypher [Text ''CREATE '', Ref Variable]"
    unfolding w d .
  with r m show ?thesis by simp
qed

text \<open>
  Claim C2 (two connect entries, two connections). The claim asks that two distinct
  literal connect entries on one relationship field give two subqueries with independent
  effect. The outcome of \<^verbatim>\<open>createSubqueryContents\<close> does not depend on the literals: two
  connect entries whose \<^verbatim>\<open>where.node\<close> filters are objects without \<^verbatim>\<open>_on\<close> have the same
  outcome (the same error, or the same text and the same parameters), whatever the keys and
  values of the two filters and whatever the position of the entries in the list.
\<close>

theorem where_filter_leaves_text_unchanged:
  assumes "getp (getp c ''where'') ''node'' = JObj w" and "map_of w ''_on'' = None"
    and "getp (getp c' ''where'') ''node'' = JObj w'" and "map_of w' ''_on'' = None"
  shows "createSubqueryContents D A relatedNode c idx
       = createSubqueryContents D A relatedNode c' idx'"
proof (rule createSubqueryContents_cong)
  show "(c = JUndefined \<or> c = JNull) = (c' = JUndefined \<or> c' = JNull)"
    using assms(1,3) by auto
  show "truthy (getp c ''where'') = truthy (getp c' ''where'')"
    using assms(1,3) by (cases "getp c ''where''"; cases "getp c' ''where''") auto
  show "(getp (getp c ''where'') ''node'' = JUndefined
                \<or> getp (getp c ''where'') ''node'' = JNull)
           = (getp (getp c' ''where'') ''node'' = JUndefined
                \<or> getp (getp c' ''where'') ''node'' = JNull)"
    using assms(1,3) by simp
  show "narrowedAway c m = narrowedAway c' m" for m
    using assms by (simp add: narrowedAway_def)
qed

theorem where_filter_leaves_text_unchanged_witness:
  "createSubqueryContents exampleDeps
      (connectActors True (JArr [whereName ''a'', whereName ''b''])) (Some Actor) (whereName ''a'') 0
   = createSubqueryContents exampleDeps
      (connectActors True (JArr [whereName ''a'', whereName ''b''])) (Some Actor) (whereName ''b'') 1
   \<and> createSubqueryContents exampleDeps
      (connectActors True (JArr [whereName ''a'', whereName ''b''])) (Some Actor) (whereName ''b'') 1
   = Inl ReferenceError"
proof -
  have a: "getp (getp (whereName x) ''where'') ''node'' = JObj [(''name'', JStr x)]" for x
    by (simp add: whereName_def)
  have b: "map_of [(''name'', JStr x)] ''_on'' = None" for x by simp
  have r: "createSubqueryContents exampleDeps
      (connectActors True (JArr [whereName ''a'', whereName ''b''])) (Some Actor) (whereName ''b'') 1
   = Inl ReferenceError"
    by (simp add: createSubqueryContents_def narrowedAway_def whereName_def)
  from where_filter_leaves_text_unchanged [OF a [of "''a''"] b a [of "''b''"] b,
      of exampleDeps "connectActors True (JArr [whereName ''a'', whereName ''b''])" "Some Actor" 0 1]
  have "createSubqueryContents exampleDeps
      (connectActors True (JArr [whereName ''a'', whereName ''b''])) (Some Actor) (whereName ''a'') 0
   = createSubqueryContents exampleDeps
      (connectActors True (JArr [whereName ''a'', whereName ''b''])) (Some Actor) (whereName ''b'') 1" .
  with r show ?thesis by blast
qed

text \<open>
  Claim C3 (the pre-conditions of both participants in the match). The claim asks that
  the compiled subquery contains the \<^verbatim>\<open>allow\<close> predicates of the parent and of the related
  node, combined with \<^verbatim>\<open>AND\<close>. Three facts about the function. First, the outcome of
  \<^verbatim>\<open>createConnectAndParams\<close> is the same whatever \<^verbatim>\<open>createAuthPredicates\<close> and
  \<^verbatim>\<open>createWherePredicate\<close> answer: replacing both collaborators by arbitrary functions
  changes neither the text nor the parameters nor the error. Second, for a connect of an
  actor on an update of movies the \<^verbatim>\<open>where\<close> calls on the match object are the filter, the
  \<^verbatim>\<open>where\<close> rule of \<^verbatim>\<open>Actor\<close>, and the conjunction of the validated \<^verbatim>\<open>allow\<close> rules of \<^verbatim>\<open>Actor\<close>
  and \<^verbatim>\<open>Movie\<close>. Third, the compilation of that connect returns no text at all: it ends with
  the \<^verbatim>\<open>ReferenceError\<close>.
\<close>

theorem allow_predicates_never_reach_the_text:
  "createConnectAndParams (D\<lparr>createAuthPredicates := f, createWherePredicate := g\<rparr>) A
     = createConnectAndParams D A
   \<and> matchWhere (buildMatchClause exampleDeps (connectActors False v) Actor (whereName ''a''))
       = [Opaque ''this_connect_actors: name = a'',
          Opaque ''rule of Actor'',
          And [ValidatePredicate (Opaque ''rule of Actor'')
                 ([CHR 0x22] @ ''@neo4j/graphql/FORBIDDEN'' @ [CHR 0x22]),
               ValidatePredicate (Opaque ''rule of Movie'')
                 ([CHR 0x22] @ ''@neo4j/graphql/FORBIDDEN'' @ [CHR 0x22])]]
   \<and> createConnectAndParams exampleDeps (connectActors False (JArr [whereName ''a'']))
       = Inl ReferenceError"
proof -
  have one: "createConnectAndParams (D\<lparr>createAuthPredicates := f, createWherePredicate := g\<rparr>) A
     = createConnectAndParams D A"
    unfolding createConnectAndParams_def reducer_frame ..
  have two: "matchWhere (buildMatchClause exampleDeps (connectActors False v) Actor (whereName ''a''))
       = [Opaque ''this_connect_actors: name = a'',
          Opaque ''rule of Actor'',
          And [ValidatePredicate (Opaque ''rule of Actor'')
                 ([CHR 0x22] @ ''@neo4j/graphql/FORBIDDEN'' @ [CHR 0x22]),
               ValidatePredicate (Opaque ''rule of Movie'')
                 ([CHR 0x22] @ ''@neo4j/graphql/FORBIDDEN'' @ [CHR 0x22])]]"
    by (simp add: buildMatchClause_def whereCalls_def rootWhereInput_def onTypeWhereInput_def
        preAuth_def allowPredicate_def nodeMatrix_def quote_def whereName_def connectActors_def
        exampleDeps_def exampleContext_def Actor_def Movie_def enumerate_eq_zip)
  have three: "createConnectAndParams exampleDeps (connectActors False (JArr [whereName ''a'']))
       = Inl ReferenceError"
    by (simp add: createConnectAndParams_def connectValues_def reducer_def
        createSubqueryContents_def narrowedAway_def whereName_def connectActors_def
        actorsField_def enumerate_eq_zip)
  from one two three show ?thesis by blast
qed

text \<open>
  Claim C4 (a filter narrowed to other types is a no-op). A connect input whose
  \<^verbatim>\<open>where.node\<close> has \<^verbatim>\<open>_on\<close> as its only key, with no entry for the related node that is
  being compiled: \<^verbatim>\<open>createSubqueryContents\<close> returns the empty subquery and no parameters
  for that node, and no error, whatever the relationship field; the loop over the
  implementing types of an interface leaves its lines and parameters as they were; and when
  that node is the only implementing type, the reducer returns what it has pushed for the
  parent before it turns to the related nodes (\<open>reducerHead\<close>: the \<^verbatim>\<open>WITH\<close> and \<^verbatim>\<open>WHERE\<close> of the
  parent and their parameters) and nothing else, no \<^verbatim>\<open>CALL\<close> block.
\<close>

theorem narrowed_type_is_skipped:
  assumes "getp connect ''where'' = JObj w"
    and "map_of w ''node'' = Some (JObj [(''_on'', JObj on)])"
    and "map_of on (name n) = None"
  shows "createSubqueryContents D A (Some n) connect idx = Inr ([], Map.empty)
       \<and> interfaceStep D A connect (idx, Some n) sp = Inr sp
       \<and> (interface (relationField A) \<noteq> None \<and> refNodes A = [Some n] \<longrightarrow>
            reducer D A (idx, connect) res = Inr (reducerHead D A res))"
proof -
  have sub: "createSubqueryContents D A (Some n) connect i = Inr ([], Map.empty)" for i
    by (rule narrowed_empty [OF assms])
  then have step: "interfaceStep D A connect (idx, Some n) s = Inr s" for s
    by (simp add: interfaceStep_def)
  have "interface (relationField A) \<noteq> None \<and> refNodes A = [Some n] \<Longrightarrow>
        reducer D A (idx, connect) res = Inr (reducerHead D A res)"
    using sub by (simp add: reducer_def interfaceStep_def callBlock_def)
  with sub step show ?thesis by blast
qed

theorem narrowed_type_is_skipped_witness:
  "createSubqueryContents exampleDeps (connectActedIn (JArr [onlySeries])) (Some Movie) onlySeries 0
     = Inr ([], Map.empty)
   \<and> interfaceStep exampleDeps (connectActedIn (JArr [onlySeries])) onlySeries (0, Some Movie)
        ([], Map.empty)
      = Inr ([], Map.empty)
   \<and> reducer exampleDeps ((connectActedIn (JArr [onlySeries]))\<lparr>refNodes := [Some Movie]\<rparr>)
        (0, onlySeries) ([], Map.empty)
      = Inr ([''WITH this'', ''WHERE this.owner = $this_auth'', ''WITH this''],
             [''this_auth'' \<mapsto> JStr ''sub''])"
proof -
  let ?A = "connectActedIn (JArr [onlySeries])"
  have b: "getp onlySeries ''where''
      = JObj [(''node'', JObj [(''_on'', JObj [(''Series'', JObj [(''title'', JStr ''s'')])])])]"
    by (simp add: onlySeries_def)
  have c: "map_of [(''node'', JObj [(''_on'', JObj [(''Series'', JObj [(''title'', JStr ''s'')])])])] ''node''
      = Some (JObj [(''_on'', JObj [(''Series'', JObj [(''title'', JStr ''s'')])])])"
    by simp
  have d: "map_of [(''Series'', JObj [(''title'', JStr ''s'')])] (name Movie) = None"
    by (simp add: Movie_def)
  have i: "interface (relationField (?A\<lparr>refNodes := [Some Movie]\<rparr>)) \<noteq> None
         \<and> refNodes (?A\<lparr>refNodes := [Some Movie]\<rparr>) = [Some Movie]"
    by (simp add: connectActedIn_def actedInField_def)
  have h: "reducerHead exampleDeps (?A\<lparr>refNodes := [Some Movie]\<rparr>) ([], Map.empty)
      = ([''WITH this'', ''WHERE this.owner = $this_auth'', ''WITH this''],
         [''this_auth'' \<mapsto> JStr ''sub''])"
    by (simp add: reducerHead_def whereAuth_def connectActedIn_def exampleDeps_def Actor_def)
  from narrowed_type_is_skipped [OF b c d, of exampleDeps ?A 0 "([], Map.empty)"]
  have one: "createSubqueryContents exampleDeps ?A (Some Movie) onlySeries 0 = Inr ([], Map.empty)
     \<and> interfaceStep exampleDeps ?A onlySeries (0, Some Movie) ([], Map.empty) = Inr ([], Map.empty)"
    by blast
  from narrowed_type_is_skipped [OF b c d, of exampleDeps "?A\<lparr>refNodes := [Some Movie]\<rparr>" 0
      _ "([], Map.empty)"] i
  have "reducer exampleDeps (?A\<lparr>refNodes := [Some Movie]\<rparr>) (0, onlySeries) ([], Map.empty)
      = Inr (reducerHead exampleDeps (?A\<lparr>refNodes := [Some Movie]\<rparr>) ([], Map.empty))"
    by blast
  with one h show ?thesis by simp
qed

text \<open>
  Claim C5 (computed sort fields are projected before the sort, the others only after the
  pagination). For a read and a computed field \<open>f\<close> of the node type: if the sort names
  \<open>f\<close>, its statement is evaluated before the first of \<^verbatim>\<open>ORDER BY\<close>, \<^verbatim>\<open>SKIP\<close> and \<^verbatim>\<open>LIMIT\<close>, and
  nowhere from that clause on; if the sort does not name \<open>f\<close>, its statement is evaluated
  nowhere up to the last of \<^verbatim>\<open>ORDER BY\<close>, \<^verbatim>\<open>SKIP\<close> and \<^verbatim>\<open>LIMIT\<close>, neither before nor between
  them, and it is evaluated after the last of them when the selection asks for \<open>f\<close>; and
  when the sort names stored fields only, no computed field at all is evaluated up to the
  last of them.
\<close>

theorem computed_sort_fields_projected_before_pagination:
  assumes "f \<in> set cypherFields"
  shows "(f \<in> set (sortFields q) \<longrightarrow>
            f \<in> set (evaluatedIn (beforeSort (translateRead cypherFields q)))
            \<and> f \<notin> set (evaluatedIn (fromSort (translateRead cypherFields q))))
       \<and> (f \<notin> set (sortFields q) \<longrightarrow>
            f \<notin> set (evaluatedIn (uptoPagination (translateRead cypherFields q)))
            \<and> (f \<in> set (selectionSet q) \<longrightarrow>
                  f \<in> set (evaluatedIn (afterPagination (translateRead cypherFields q)))))
       \<and> (set (sortFields q) \<inter> set cypherFields = {} \<longrightarrow>
            evaluatedIn (uptoPagination (translateRead cypherFields q)) = [])"
proof -
  have one: "f \<in> set (sortFields q) \<Longrightarrow>
            f \<in> set (evaluatedIn (beforeSort (translateRead cypherFields q)))
            \<and> f \<notin> set (evaluatedIn (fromSort (translateRead cypherFields q)))"
  proof -
    assume s: "f \<in> set (sortFields q)"
    then have "sortFields q \<noteq> []" by auto
    with s assms show ?thesis
      by (simp add: translateRead_beforeSort translateRead_fromSort)
  qed
  have two: "f \<notin> set (sortFields q) \<Longrightarrow>
            f \<notin> set (evaluatedIn (uptoPagination (translateRead cypherFields q)))
            \<and> (f \<in> set (selectionSet q) \<longrightarrow>
                  f \<in> set (evaluatedIn (afterPagination (translateRead cypherFields q))))"
    using assms by (simp add: translateRead_uptoPagination translateRead_afterPagination)
  have three: "set (sortFields q) \<inter> set cypherFields = {} \<Longrightarrow>
            evaluatedIn (uptoPagination (translateRead cypherFields q)) = []"
  proof -
    assume "set (sortFields q) \<inter> set cypherFields = {}"
    then have "filter (\<lambda>f. f \<in> set cypherFields) (remdups (sortFields q)) = []"
      by (auto simp: filter_empty_conv)
    then show ?thesis by (simp add: translateRead_uptoPagination)
  qed
  from one two three show ?thesis by blast
qed

theorem computed_sort_fields_projected_before_pagination_witness:
  "translateRead movieCypherFields sortOnTotalGenres
     = [MatchNodes, Evaluate [''totalGenres''], OrderBy [''totalGenres''], Skip, Limit,
        Evaluate [''totalActors'']]
   \<and> ''totalGenres'' \<in> set (evaluatedIn (beforeSort (translateRead movieCypherFields sortOnTotalGenres)))
   \<and> ''totalGenres'' \<notin> set (evaluatedIn (fromSort (translateRead movieCypherFields sortOnTotalGenres)))
   \<and> ''totalActors'' \<notin> set (evaluatedIn (uptoPagination (translateRead movieCypherFields sortOnTotalGenres)))
   \<and> ''totalActors'' \<in> set (evaluatedIn (afterPagination (translateRead movieCypherFields sortOnTotalGenres)))
   \<and> translateRead movieCypherFields sortOnTitle
     = [MatchNodes, Evaluate [], OrderBy [''title''], Limit, Evaluate [''totalGenres'']]
   \<and> evaluatedIn (uptoPagination (translateRead movieCypherFields sortOnTitle)) = []"
proof -
  have a: "''totalGenres'' \<in> set movieCypherFields" "''totalActors'' \<in> set movieCypherFields"
    by (simp_all add: movieCypherFields_def)
  have c: "''totalGenres'' \<in> set (sortFields sortOnTotalGenres)"
     "''totalActors'' \<notin> set (sortFields sortOnTotalGenres)"
     "''totalActors'' \<in> set (selectionSet sortOnTotalGenres)"
    by (simp_all add: sortOnTotalGenres_def)
  have d: "set (sortFields sortOnTitle) \<inter> set movieCypherFields = {}"
    by (simp add: sortOnTitle_def movieCypherFields_def)
  have e: "translateRead movieCypherFields sortOnTotalGenres
     = [MatchNodes, Evaluate [''totalGenres''], OrderBy [''totalGenres''], Skip, Limit,
        Evaluate [''totalActors'']]"
    "translateRead movieCypherFields sortOnTitle
     = [MatchNodes, Evaluate [], OrderBy [''title''], Limit, Evaluate [''totalGenres'']]"
    by (simp_all add: translateRead_def movieCypherFields_def sortOnTotalGenres_def
        sortOnTitle_def)
  from computed_sort_fields_projected_before_pagination [OF a(1), of sortOnTotalGenres] c
  have one: "''totalGenres'' \<in> set (evaluatedIn (beforeSort (translateRead movieCypherFields sortOnTotalGenres)))
     \<and> ''totalGenres'' \<notin> set (evaluatedIn (fromSort (translateRead movieCypherFields sortOnTotalGenres)))"
    by blast
  from computed_sort_fields_projected_before_pagination [OF a(2), of sortOnTotalGenres] c
  have two: "''totalActors'' \<notin> set (evaluatedIn (uptoPagination (translateRead movieCypherFields sortOnTotalGenres)))
     \<and> ''totalActors'' \<in> set (evaluatedIn (afterPagination (translateRead movieCypherFields sortOnTotalGenres)))"
    by blast
  from computed_sort_fields_projected_before_pagination [OF a(1), of sortOnTitle] d
  have three: "evaluatedIn (uptoPagination (translateRead movieCypherFields sortOnTitle)) = []"
    by blast
  from e one two three show ?thesis by blast
qed

text \<open>
  Claim C6 (compilation is a function of its input, in input order). The claim asks that
  two compilations of one input yield the same program text and parameters, with the
  sibling connects in the order of the input and the nested connects depth first. What the
  function yields: a call of \<^verbatim>\<open>createSubqueryContents\<close> has three possible outcomes, a
  \<^verbatim>\<open>TypeError\<close>, the \<^verbatim>\<open>ReferenceError\<close>, or the empty subquery with no parameters, so that no text
  of any connect, sibling or nested, is ever returned; the compilation of two sibling
  entries throws the \<^verbatim>\<open>ReferenceError\<close>, and so does that of an entry with a nested connect,
  before its nested connect is looked at.
\<close>

theorem no_connect_reaches_the_program:
  "createSubqueryContents D A relatedNode connect idx
     \<in> {Inl TypeError, Inl ReferenceError, Inr ([], Map.empty)}
   \<and> createConnectAndParams exampleDeps
        (connectActors True (JArr [whereName ''a'', whereName ''b''])) = Inl ReferenceError
   \<and> createConnectAndParams exampleDeps
        (connectActors True (JArr [nestedName ''a'' ''m''])) = Inl ReferenceError"
proof -
  have r: "createSubqueryContents D' A' (Some Actor) (whereName x) i = Inl ReferenceError"
          "createSubqueryContents D' A' (Some Actor) (nestedName x y) i = Inl ReferenceError"
    for D' A' x y i
    by (simp_all add: createSubqueryContents_def narrowedAway_def whereName_def nestedName_def)
  have "createConnectAndParams exampleDeps
        (connectActors True (JArr [whereName ''a'', whereName ''b''])) = Inl ReferenceError"
    by (simp add: createConnectAndParams_def connectValues_def reducer_def r connectActors_def
        actorsField_def enumerate_eq_zip)
  moreover have "createConnectAndParams exampleDeps
        (connectActors True (JArr [nestedName ''a'' ''m''])) = Inl ReferenceError"
    by (simp add: createConnectAndParams_def connectValues_def reducer_def r connectActors_def
        actorsField_def enumerate_eq_zip)
  ultimately show ?thesis
    using createSubqueryContents_outcomes [of D A relatedNode connect idx] by blast
qed

text \<open>
  Claim C7 (the validation of the \<^verbatim>\<open>bind\<close> rules is part of the program). The claim asks
  that compilation succeeds and returns a program that holds the call of
  \<^verbatim>\<open>apoc.util.validate\<close>. What the function does for a connect input that is an object,
  whose \<^verbatim>\<open>where\<close> is absent or has a \<^verbatim>\<open>node\<close> object, and that is not narrowed away from the
  related node: \<^verbatim>\<open>createSubqueryContents\<close> throws the \<^verbatim>\<open>ReferenceError\<close>, before the statements
  that build the validation call; a compilation that has this input among its connect
  inputs, for the first of \<^verbatim>\<open>refNodes\<close> or for an implementing type of an interface, returns
  no program (it throws); and when the input is the first of the connect inputs and the
  related node the first of \<^verbatim>\<open>refNodes\<close>, what it throws is the \<^verbatim>\<open>ReferenceError\<close>.
\<close>

theorem compilation_stops_before_the_validation_call:
  assumes "connect = JObj kvs"
    and "\<not> truthy (getp connect ''where'') \<or> (\<exists>w. getp (getp connect ''where'') ''node'' = JObj w)"
    and "\<not> narrowedAway connect n"
  shows "createSubqueryContents D A (Some n) connect idx = Inl ReferenceError
       \<and> ((interface (relationField A) = None \<and> (\<exists>rest. refNodes A = Some n # rest)
             \<or> interface (relationField A) \<noteq> None \<and> Some n \<in> set (refNodes A))
            \<and> connectValues A = Inr vs \<and> connect \<in> set vs \<longrightarrow>
           (\<exists>e. createConnectAndParams D A = Inl e))
       \<and> (refNodes A = Some n # rest \<and> connectValues A = Inr (connect # cs) \<longrightarrow>
           createConnectAndParams D A = Inl ReferenceError)"
proof -
  have sub: "createSubqueryContents D A (Some n) connect i = Inl ReferenceError" for i
    by (rule not_narrowed_throws [OF assms])
  have two: "(interface (relationField A) = None \<and> (\<exists>rest. refNodes A = Some n # rest)
             \<or> interface (relationField A) \<noteq> None \<and> Some n \<in> set (refNodes A))
            \<and> connectValues A = Inr vs \<and> connect \<in> set vs \<Longrightarrow>
           \<exists>e. createConnectAndParams D A = Inl e"
  proof -
    assume h: "(interface (relationField A) = None \<and> (\<exists>rest. refNodes A = Some n # rest)
             \<or> interface (relationField A) \<noteq> None \<and> Some n \<in> set (refNodes A))
            \<and> connectValues A = Inr vs \<and> connect \<in> set vs"
    then have vs: "connectValues A = Inr vs" and mem: "connect \<in> set vs" by simp_all
    have red: "\<exists>e. reducer D A (j, connect) res = Inl e" for j res
    proof -
      from h consider
          (plain) rest where "interface (relationField A) = None" "refNodes A = Some n # rest"
        | (iface) "interface (relationField A) \<noteq> None" "Some n \<in> set (refNodes A)"
        by blast
      then show ?thesis
      proof cases
        case plain
        with sub show ?thesis by (simp add: reducer_def)
      next
        case iface
        from enumerate_member [OF iface(2)] obtain i
          where i: "(i, Some n) \<in> set (enumerate 0 (refNodes A))" by blast
        have st: "\<And>s. \<exists>e. interfaceStep D A connect (i, Some n) s = Inl e"
          using sub by (simp add: interfaceStep_def)
        from foldE_fails [where f = "interfaceStep D A connect", OF i st] obtain e where
          "foldE (interfaceStep D A connect) (enumerate 0 (refNodes A))
             ([], snd (reducerHead D A res)) = Inl e" by blast
        with iface(1) show ?thesis by (simp add: reducer_def)
      qed
    qed
    from enumerate_member [OF mem] obtain j where j: "(j, connect) \<in> set (enumerate 0 vs)"
      by blast
    from foldE_fails [where f = "reducer D A", OF j red [of j]] obtain e where
      "foldE (reducer D A) (enumerate 0 vs) ([], Map.empty) = Inl e" by blast
    with vs show ?thesis by (simp add: createConnectAndParams_def)
  qed
  have three: "refNodes A = Some n # rest \<and> connectValues A = Inr (connect # cs) \<Longrightarrow>
           createConnectAndParams D A = Inl ReferenceError"
  proof -
    assume h: "refNodes A = Some n # rest \<and> connectValues A = Inr (connect # cs)"
    have "reducer D A (0, connect) ([], Map.empty) = Inl ReferenceError"
    proof (cases "interface (relationField A) = None")
      case True
      with h sub show ?thesis by (simp add: reducer_def)
    next
      case False
      with h sub show ?thesis by (simp add: reducer_def interfaceStep_def enumerate_eq_zip upt_rec)
    qed
    with h show ?thesis by (simp add: createConnectAndParams_def enumerate_eq_zip upt_rec)
  qed
  from sub two three show ?thesis by blast
qed

theorem compilation_stops_before_the_validation_call_witness:
  "whereName ''a'' = JObj [(''where'', JObj [(''node'', JObj [(''name'', JStr ''a'')])])]
   \<and> \<not> narrowedAway (whereName ''a'') Actor
   \<and> createSubqueryContents exampleDeps (connectActors False (JArr [whereName ''a'']))
        (Some Actor) (whereName ''a'') 0 = Inl ReferenceError
   \<and> createConnectAndParams exampleDeps (connectActors False (JArr [whereName ''a'']))
        = Inl ReferenceError"
proof -
  let ?A = "connectActors False (JArr [whereName ''a''])"
  have a: "whereName ''a'' = JObj [(''where'', JObj [(''node'', JObj [(''name'', JStr ''a'')])])]"
    by (simp add: whereName_def)
  have b: "\<not> truthy (getp (whereName ''a'') ''where'')
           \<or> (\<exists>w. getp (getp (whereName ''a'') ''where'') ''node'' = JObj w)"
    by (simp add: whereName_def)
  have c: "\<not> narrowedAway (whereName ''a'') Actor"
    by (simp add: narrowedAway_def whereName_def)
  have d: "refNodes ?A = Some Actor # [] \<and> connectValues ?A = Inr (whereName ''a'' # [])"
    by (simp add: connectActors_def connectValues_def actorsField_def)
  from compilation_stops_before_the_validation_call [OF a b c, of exampleDeps ?A 0 _ "[]" "[]"] d
  have "createSubqueryContents exampleDeps ?A (Some Actor) (whereName ''a'') 0 = Inl ReferenceError
      \<and> createConnectAndParams exampleDeps ?A = Inl ReferenceError"
    by blast
  with a c show ?thesis by blast
qed



text \<open>
  Claim C9 (a key under \<^verbatim>\<open>_on\<close> replaces the same key of the root filter). The claim asks
  that for a key present at the root and under \<^verbatim>\<open>_on\<close> for the related node, the predicate
  uses the value under \<^verbatim>\<open>_on\<close> and omits the root value. The function at two filters on the
  interface field \<^verbatim>\<open>actedIn\<close>, compiled for \<^verbatim>\<open>Movie\<close>. For
  \<^verbatim>\<open>{ released: true, _on: { Movie: { released: false } } }\<close> the root where input keeps
  \<^verbatim>\<open>released: true\<close>, the where input of \<^verbatim>\<open>_on\<close> is \<^verbatim>\<open>released: false\<close>, and the match gets both
  predicates. For \<^verbatim>\<open>{ _on: { Movie: { title: "on" } }, title: "root" }\<close> the root where input
  is empty and the where input of \<^verbatim>\<open>_on\<close> is \<^verbatim>\<open>title: "root"\<close>: the match gets the root value
  and not the value under \<^verbatim>\<open>_on\<close>.
\<close>

theorem root_key_override_goes_by_truthiness_and_key_order:
  "rootWhereInput releasedOverridden Movie = [(''released'', JBool True)]
   \<and> onTypeWhereInput releasedOverridden Movie = [(''released'', JBool False)]
   \<and> matchWhere (buildMatchClause exampleDeps (connectActedIn v) Movie
        (JObj [(''where'', JObj [(''node'', releasedOverridden)])]))
       = [Opaque ''this_connect_actedIn: released = true'',
          Opaque ''this_connect_actedIn: released = false'',
          Opaque ''rule of Movie'',
          And [ValidatePredicate (Opaque ''rule of Movie'')
                 ([CHR 0x22] @ ''@neo4j/graphql/FORBIDDEN'' @ [CHR 0x22]),
               ValidatePredicate (Opaque ''rule of Actor'')
                 ([CHR 0x22] @ ''@neo4j/graphql/FORBIDDEN'' @ [CHR 0x22])]]
   \<and> rootWhereInput titleAfterOn Movie = []
   \<and> onTypeWhereInput titleAfterOn Movie = [(''title'', JStr ''root'')]
   \<and> matchWhere (buildMatchClause exampleDeps (connectActedIn v) Movie
        (JObj [(''where'', JObj [(''node'', titleAfterOn)])]))
       = [Opaque ''this_connect_actedIn: title = root'',
          Opaque ''rule of Movie'',
          And [ValidatePredicate (Opaque ''rule of Movie'')
                 ([CHR 0x22] @ ''@neo4j/graphql/FORBIDDEN'' @ [CHR 0x22]),
               ValidatePredicate (Opaque ''rule of Actor'')
                 ([CHR 0x22] @ ''@neo4j/graphql/FORBIDDEN'' @ [CHR 0x22])]]"
proof -
  have r: "rootWhereInput releasedOverridden Movie = [(''released'', JBool True)]"
          "onTypeWhereInput releasedOverridden Movie = [(''released'', JBool False)]"
          "rootWhereInput titleAfterOn Movie = []"
          "onTypeWhereInput titleAfterOn Movie = [(''title'', JStr ''root'')]"
    by (simp_all add: rootWhereInput_def onTypeWhereInput_def releasedOverridden_def
        titleAfterOn_def Movie_def)
  have t: "truthy (getp (getp releasedOverridden ''_on'') (name Movie))"
          "truthy (getp (getp titleAfterOn ''_on'') (name Movie))"
    by (simp_all add: releasedOverridden_def titleAfterOn_def Movie_def)
  have p: "preAuth exampleDeps (connectActedIn v) Movie
      = [Opaque ''rule of Movie'', Opaque ''rule of Actor'']"
    by (simp add: preAuth_def allowPredicate_def nodeMatrix_def connectActedIn_def exampleDeps_def
        Movie_def Actor_def enumerate_eq_zip)
  have a: "auth Movie" "varName (connectActedIn v) = ''this_connect_actedIn''"
     "\<not> insideDoWhen (connectActedIn v)"
     "AUTH_FORBIDDEN_ERROR exampleDeps = ''@neo4j/graphql/FORBIDDEN''"
    by (simp_all add: Movie_def connectActedIn_def exampleDeps_def)
  have w: "createWherePredicate exampleDeps ''this_connect_actedIn'' [(k, x)] C n
      = Some (Opaque (''this_connect_actedIn: '' @ k @ '' = '' @ showValue x))"
     "createWherePredicate exampleDeps ''this_connect_actedIn'' [] C n = None" for k x C n
    by (simp_all add: exampleDeps_def)
  have e: "createAuthPredicates exampleDeps q = Some (Opaque (''rule of '' @ name (entity q)))" for q
    by (simp add: exampleDeps_def)
  have m1: "matchWhere (buildMatchClause exampleDeps (connectActedIn v) Movie
        (JObj [(''where'', JObj [(''node'', releasedOverridden)])]))
       = [Opaque ''this_connect_actedIn: released = true'',
          Opaque ''this_connect_actedIn: released = false'',
          Opaque ''rule of Movie'',
          And [ValidatePredicate (Opaque ''rule of Movie'')
                 ([CHR 0x22] @ ''@neo4j/graphql/FORBIDDEN'' @ [CHR 0x22]),
               ValidatePredicate (Opaque ''rule of Actor'')
                 ([CHR 0x22] @ ''@neo4j/graphql/FORBIDDEN'' @ [CHR 0x22])]]"
    by (simp add: buildMatchClause_def whereCalls_def r t p a w e quote_def) (simp add: Movie_def)
  have m2: "matchWhere (buildMatchClause exampleDeps (connectActedIn v) Movie
        (JObj [(''where'', JObj [(''node'', titleAfterOn)])]))
       = [Opaque ''this_connect_actedIn: title = root'',
          Opaque ''rule of Movie'',
          And [ValidatePredicate (Opaque ''rule of Movie'')
                 ([CHR 0x22] @ ''@neo4j/graphql/FORBIDDEN'' @ [CHR 0x22]),
               ValidatePredicate (Opaque ''rule of Actor'')
                 ([CHR 0x22] @ ''@neo4j/graphql/FORBIDDEN'' @ [CHR 0x22])]]"
    by (simp add: buildMatchClause_def whereCalls_def r t p a w e quote_def) (simp add: Movie_def)
  from r m1 m2 show ?thesis by blast
qed

section \<open>Properties of the deprecation warning\<close>

lemma calls_shown:
  "deprecationWarningShown s \<Longrightarrow> console (calls s is) = console s"
  by (induction "is" arbitrary: s) (simp_all add: getCustomResolverMeta_def warnDeprecated_def)

lemma calls_not_shown:
  "\<not> deprecationWarningShown s \<Longrightarrow>
   console (calls s is) =
     console s @ (if list_ex encountersDeprecated is then [DEPRECATION_WARNING] else [])"
proof (induction "is" arbitrary: s)
  case Nil
  then show ?case by simp
next
  case (Cons i "is")
  show ?case
  proof (cases "encountersDeprecated i")
    case True
    then have "deprecationWarningShown (snd (getCustomResolverMeta s i))"
      by (simp add: getCustomResolverMeta_def warnDeprecated_def encountersDeprecated_def)
    then have "console (calls s (i # is)) = console (snd (getCustomResolverMeta s i))"
      by (simp add: calls_shown)
    with True Cons.prems show ?thesis
      by (simp add: getCustomResolverMeta_def warnDeprecated_def encountersDeprecated_def)
  next
    case False
    then have same: "snd (getCustomResolverMeta s i) = s"
      by (simp add: getCustomResolverMeta_def warnDeprecated_def encountersDeprecated_def)
    with False Cons.IH [OF Cons.prems] show ?thesis by simp
  qed
qed

text \<open>
  Claim C10. Whatever the calls made after the module is loaded, and whether they return or
  throw, the deprecation warning is on the console at most once: exactly once when some call
  meets the deprecated \<^verbatim>\<open>@computed\<close> directive, and nothing is printed when none does.
\<close>

theorem deprecation_warning_at_most_once:
  "console (calls moduleLoaded is) =
     (if list_ex encountersDeprecated is then [DEPRECATION_WARNING] else [])
   \<and> length (filter (\<lambda>l. l = DEPRECATION_WARNING) (console (calls moduleLoaded is))) \<le> 1
   \<and> (\<not> list_ex encountersDeprecated is \<longrightarrow> console (calls moduleLoaded is) = [])"
proof -
  have "\<not> deprecationWarningShown moduleLoaded" by (simp add: moduleLoaded_def)
  from calls_not_shown [OF this, of "is"] show ?thesis by (simp add: moduleLoaded_def)
qed

theorem deprecation_warning_at_most_once_witness:
  "console (calls moduleLoaded [inputOf computedField, inputOf plainField, inputOf computedField])
     = [DEPRECATION_WARNING]
   \<and> console (calls moduleLoaded [inputOf plainField, inputOf plainField]) = []"
proof -
  have a: "list_ex encountersDeprecated [inputOf computedField, inputOf plainField, inputOf computedField]"
    by (simp add: encountersDeprecated_def findDirective_def inputOf_def computedField_def)
  have b: "\<not> list_ex encountersDeprecated [inputOf plainField, inputOf plainField :: string customResolverInput]"
    by (simp add: encountersDeprecated_def findDirective_def inputOf_def plainField_def)
  from a b
    deprecation_warning_at_most_once [of "[inputOf computedField, inputOf plainField, inputOf computedField]"]
    deprecation_warning_at_most_once [of "[inputOf plainField, inputOf plainField :: string customResolverInput]"]
  show ?thesis by simp
qed

end
